theory Spec2Isabelle
  imports Complex_Main "HOL-Library.Word"
begin

section \<open>A shallow embedding of public\_share\_bot.py\<close>

text \<open>
  The bot relays uploaded files into a private channel, binds the relayed message ids of
  one upload session to a share token, and serves a share back in pages of
  \<open>FILES_PER_PAGE\<close> items. Handlers are modelled as functions on an explicit
  \<open>world\<close> (the registry table, the per-user dictionaries, the pending media groups,
  the job queue and the trace of calls made to the outside), with the answers of the
  collaborators (Telegram, PostgreSQL, the random generator) supplied by an \<open>env\<close>.
\<close>

subsection \<open>Python strings and integers\<close>

text \<open>
  The exceptions the handlers can meet. The source tells two \<open>BadRequest\<close>s apart by
  a substring of their message; they are constructors here.
\<close>

datatype bad_request = Message_not_modified | Message_cant_be_deleted | Other_bad_request

datatype py_exception =
  BadRequest bad_request | TimedOut | TelegramError | DatabaseError | ValueError | IndexError
  | AttributeError

text \<open>\<open>str(n)\<close> for a Python int: decimal digits, a leading minus sign when negative.\<close>

definition digit_char :: "nat \<Rightarrow> char" where
  "digit_char d = char_of (48 + d)"

function str_nat :: "nat \<Rightarrow> string" where
  "str_nat n = (if n < 10 then [digit_char n] else str_nat (n div 10) @ [digit_char (n mod 10)])"
  by pat_completeness auto
termination
  by (relation "measure (\<lambda>n. n)") auto

declare str_nat.simps [simp del]

definition str_int :: "int \<Rightarrow> string" where
  "str_int i = (if i < 0 then CHR ''-'' # str_nat (nat (- i)) else str_nat (nat i))"

text \<open>
  \<open>int(s)\<close> on the strings the bot itself writes: an optional minus sign and one or
  more decimal digits; anything else raises \<open>ValueError\<close> (the empty string included).
\<close>

definition is_digit :: "char \<Rightarrow> bool" where
  "is_digit c = (48 \<le> (of_char c :: nat) \<and> (of_char c :: nat) \<le> 57)"

definition digit_val :: "char \<Rightarrow> nat" where
  "digit_val c = of_char c - 48"

definition nat_of_digits :: "string \<Rightarrow> nat" where
  "nat_of_digits s = foldl (\<lambda>acc c. 10 * acc + digit_val c) 0 s"

definition py_int :: "string \<Rightarrow> py_exception + int" where
  "py_int s =
     (case s of
        [] \<Rightarrow> Inl ValueError
      | c # cs \<Rightarrow>
          if c = CHR ''-'' then
            (if cs \<noteq> [] \<and> list_all is_digit cs then Inr (- int (nat_of_digits cs)) else Inl ValueError)
          else if list_all is_digit s then Inr (int (nat_of_digits s))
          else Inl ValueError)"

text \<open>\<open>s.split(sep, maxsplit)\<close> for a one-character separator; always at least one piece.\<close>

primrec split_max :: "nat \<Rightarrow> char \<Rightarrow> string \<Rightarrow> string list" where
  "split_max 0 sep s = [s]"
| "split_max (Suc n) sep s =
     (if sep \<in> set s
      then takeWhile (\<lambda>c. c \<noteq> sep) s # split_max n sep (tl (dropWhile (\<lambda>c. c \<noteq> sep) s))
      else [s])"

text \<open>\<open>s.split(sep)\<close>: no limit; a string has at most \<open>length s\<close> separators.\<close>

definition split :: "char \<Rightarrow> string \<Rightarrow> string list" where
  "split sep s = split_max (length s) sep s"

text \<open>\<open>sep.join(parts)\<close>.\<close>

fun join :: "string \<Rightarrow> string list \<Rightarrow> string" where
  "join sep [] = []"
| "join sep [p] = p"
| "join sep (p # q # ps) = p @ sep @ join sep (q # ps)"

text \<open>Truth value of an optional string (\<open>if share_id:\<close>): \<open>None\<close> and \<open>''\<close> are false.\<close>

definition truthy :: "string option \<Rightarrow> bool" where
  "truthy s = (case s of None \<Rightarrow> False | Some v \<Rightarrow> v \<noteq> [])"

text \<open>An optional string inside an f-string: \<open>None\<close> prints as \<open>None\<close>.\<close>

definition fmt :: "string option \<Rightarrow> string" where
  "fmt s = (case s of None \<Rightarrow> ''None'' | Some v \<Rightarrow> v)"

subsection \<open>Constants\<close>

definition FILES_PER_PAGE :: int where
  "FILES_PER_PAGE = 10"

text \<open>The delay, in seconds, of the job scheduled for an album item (\<open>run_once(..., 2, ...)\<close>).\<close>

definition ALBUM_DELAY :: rat where
  "ALBUM_DELAY = 2"

subsection \<open>The pagination keyboard\<close>

text \<open>
  Button captions are Chinese text with the page number interpolated; they are kept as a
  datatype, one constructor per caption of the source. Callback data are the source's
  strings.
\<close>

datatype file_caption = Batch_upload int  \<comment> \<open>"batch upload (N files in all)"\<close>

datatype caption_text =
    Current_page_text int  \<comment> \<open>the page number between two middle dots\<close>
  | Page_text int          \<comment> \<open>\<open>str(p)\<close>\<close>
  | Prev_text | First_text | Next_text | Last_text
  | File_text file_caption \<comment> \<open>file entry of /myfiles, the caption cut to 25 characters\<close>
  | Delete_text

datatype InlineKeyboardButton =
  InlineKeyboardButton (button_text: caption_text) (callback_data: string)

definition with_share_id :: "string option \<Rightarrow> string \<Rightarrow> string" where
  "with_share_id share_id callback =
     (if truthy share_id then callback @ '':'' @ the share_id else callback)"

definition page_button :: "int \<Rightarrow> string \<Rightarrow> string option \<Rightarrow> int \<Rightarrow> InlineKeyboardButton" where
  "page_button current_page callback_prefix share_id p =
     (let text = (if p = current_page then Current_page_text p else Page_text p);
          callback_data = (if p = current_page then ''noop''
                           else callback_prefix @ '':'' @ str_int p)
      in InlineKeyboardButton text (with_share_id share_id callback_data))"

definition page_range :: "int \<Rightarrow> int \<Rightarrow> int \<times> int" where
  "page_range current_page total_pages =
     (let start_page = max 1 (current_page - 2);
          end_page = min total_pages (start_page + 4);
          start_page = max 1 (end_page - 4)
      in (start_page, end_page))"

definition create_pagination_keyboard ::
  "int \<Rightarrow> int \<Rightarrow> string \<Rightarrow> string option \<Rightarrow> InlineKeyboardButton list list" where
  "create_pagination_keyboard current_page total_pages callback_prefix share_id =
     (let keyboard = [];
          keyboard =
            (if total_pages > 1 then
               (let (start_page, end_page) = page_range current_page total_pages;
                    page_buttons = map (page_button current_page callback_prefix share_id)
                                       [start_page..end_page]
                in keyboard @ [page_buttons])
             else keyboard);
          nav_row = [];
          ends_row = [];
          prev_callback = callback_prefix @ '':'' @ str_int (current_page - 1);
          first_callback = callback_prefix @ '':1'';
          nav_row = (if current_page > 1
                     then InlineKeyboardButton Prev_text (with_share_id share_id prev_callback) # nav_row
                     else nav_row);
          ends_row = (if current_page > 1
                      then InlineKeyboardButton First_text (with_share_id share_id first_callback) # ends_row
                      else ends_row);
          next_callback = callback_prefix @ '':'' @ str_int (current_page + 1);
          last_callback = callback_prefix @ '':'' @ str_int total_pages;
          nav_row = (if current_page < total_pages
                     then nav_row @ [InlineKeyboardButton Next_text (with_share_id share_id next_callback)]
                     else nav_row);
          ends_row = (if current_page < total_pages
                      then ends_row @ [InlineKeyboardButton Last_text (with_share_id share_id last_callback)]
                      else ends_row);
          keyboard = (if nav_row \<noteq> [] then keyboard @ [nav_row] else keyboard);
          keyboard = (if ends_row \<noteq> [] then keyboard @ [ends_row] else keyboard)
      in keyboard)"

text \<open>Observers of a keyboard: the page numbers of its page controls, and its captions.\<close>

fun page_number :: "InlineKeyboardButton \<Rightarrow> int option" where
  "page_number (InlineKeyboardButton (Current_page_text p) d) = Some p"
| "page_number (InlineKeyboardButton (Page_text p) d) = Some p"
| "page_number (InlineKeyboardButton t d) = None"



subsection \<open>Page windows\<close>

text \<open>
  The computation shared by \<open>show_shared_files_page\<close> and \<open>show_my_files_page\<close>: both
  return before it when there is nothing to show. The page size is the constant
  \<open>FILES_PER_PAGE\<close> in both; it is a parameter here. The result is the effective page,
  the number of pages and the offset of the page's first item.
\<close>

definition paginate :: "int \<Rightarrow> int \<Rightarrow> int \<Rightarrow> (int \<times> int \<times> int) option" where
  "paginate total_files page_size page =
     (if total_files = 0 then None
      else
        (let total_pages = (total_files + page_size - 1) div page_size;
             page = max 1 (min page total_pages);
             offset = (page - 1) * page_size
         in Some (page, total_pages, offset)))"

text \<open>\<open>xs[offset : offset + n]\<close> for \<open>offset \<ge> 0\<close> and \<open>n \<ge> 0\<close>, as at every call.\<close>

definition slice :: "'a list \<Rightarrow> int \<Rightarrow> int \<Rightarrow> 'a list" where
  "slice xs offset n = take (nat n) (drop (nat offset) xs)"

subsection \<open>Share links\<close>

text \<open>\<open>d.get(key, '')\<close> on an optional string.\<close>

definition or_empty :: "string option \<Rightarrow> string" where
  "or_empty s = (case s of None \<Rightarrow> [] | Some v \<Rightarrow> v)"

text \<open>\<open>f"https://t.me/{bot_username}?start={share_id}"\<close>.\<close>

definition share_link :: "string \<Rightarrow> string \<Rightarrow> string" where
  "share_link username share_id = ''https://t.me/'' @ username @ ''?start='' @ share_id"

text \<open>The character class \<open>[A-Za-z0-9_-]\<close>.\<close>

definition is_token_char :: "char \<Rightarrow> bool" where
  "is_token_char c =
     (let n = (of_char c :: nat)
      in (65 \<le> n \<and> n \<le> 90) \<or> (97 \<le> n \<and> n \<le> 122) \<or> (48 \<le> n \<and> n \<le> 57)
         \<or> c = CHR ''_'' \<or> c = CHR ''-'')"

text \<open>Telegram user names are made of \<open>[A-Za-z0-9_]\<close>; none of these is special in a pattern.\<close>

definition is_username_char :: "char \<Rightarrow> bool" where
  "is_username_char c = (is_token_char c \<and> c \<noteq> CHR ''-'')"

definition strip_prefix :: "string \<Rightarrow> string \<Rightarrow> string option" where
  "strip_prefix p s = (if take (length p) s = p then Some (drop (length p) s) else None)"

text \<open>
  \<open>re.compile(rf"https?://t\.me/{bot_username}\?start=([A-Za-z0-9_-]+)").match(user_text)\<close>,
  returning \<open>match.group(1)\<close>. The match is anchored at the start of the text only. The
  user name is interpolated into the pattern as it is; the model reads each of its
  characters as a literal, which is what the pattern means when the name has no pattern
  operator in it (\<open>list_all is_username_char\<close>).
\<close>

definition match_share_link :: "string \<Rightarrow> string \<Rightarrow> string option" where
  "match_share_link bot_username user_text =
     (case strip_prefix ''http'' user_text of
        None \<Rightarrow> None
      | Some r1 \<Rightarrow>
          (let r2 = (case strip_prefix ''s'' r1 of Some r \<Rightarrow> r | None \<Rightarrow> r1)
           in case strip_prefix (''://t.me/'' @ bot_username @ ''?start='') r2 of
                None \<Rightarrow> None
              | Some r3 \<Rightarrow>
                  (let g = takeWhile is_token_char r3
                   in if g = [] then None else Some g)))"

subsection \<open>Share tokens\<close>

text \<open>
  \<open>secrets.token_urlsafe(8)\<close>: eight random bytes in URL-safe Base64 with the padding
  removed. The bytes come from the environment; the encoding is Python's.
\<close>

definition b64_alphabet :: string where
  "b64_alphabet = ''ABCDEFGHIJKLMNOPQRSTUVWXYZabcdefghijklmnopqrstuvwxyz0123456789-_''"

definition b64_char :: "nat \<Rightarrow> char" where
  "b64_char i = b64_alphabet ! (i mod 64)"

fun urlsafe_b64encode :: "8 word list \<Rightarrow> string" where
  "urlsafe_b64encode (a # b # c # rest) =
     (let n = unat a * 65536 + unat b * 256 + unat c
      in [b64_char (n div 262144), b64_char (n div 4096), b64_char (n div 64), b64_char n]
         @ urlsafe_b64encode rest)"
| "urlsafe_b64encode [a, b] =
     (let n = unat a * 65536 + unat b * 256
      in [b64_char (n div 262144), b64_char (n div 4096), b64_char (n div 64)])"
| "urlsafe_b64encode [a] =
     (let n = unat a * 65536
      in [b64_char (n div 262144), b64_char (n div 4096)])"
| "urlsafe_b64encode [] = []"

definition token_urlsafe :: "8 word list \<Rightarrow> string" where
  "token_urlsafe random_bytes = urlsafe_b64encode random_bytes"

subsection \<open>The world and the environment\<close>

datatype ChatType = PRIVATE | GROUP | SUPERGROUP | CHANNEL

datatype ChatMemberStatus = OWNER | ADMINISTRATOR | MEMBER | RESTRICTED | LEFT | BANNED

datatype file_type = Collection

text \<open>A row of table \<open>files\<close>; \<open>message_id\<close> is the comma-separated text column.\<close>

record file_row =
  message_id :: string
  uploader_id :: int
  file_caption :: file_caption
  file_type :: file_type

text \<open>\<open>context.user_data\<close>: a dictionary, each key present or absent.\<close>

record user_data =
  state :: "string option"
  session_message_ids :: "int list option"
  session_file_count :: "int option"
  last_page_file_ids :: "int list option"
  last_control_panel_id :: "int option"
  pending_share_id :: "string option"

text \<open>
  A job of the queue. Its data hold the user, the chat and a reference to a list of message
  ids: for an album item this is the very list kept in \<open>bot_data\<close> for the group, so the
  list is an address into the \<open>heap\<close> of the world.
\<close>

record job =
  job_name :: string
  due :: rat
  job_user_id :: int
  job_chat_id :: int
  job_message_ids :: nat

text \<open>The texts shown to the user, one constructor per message of the source.\<close>

datatype notice =
    Restricted_alert | Restricted_notice
  | Invalid_link | No_files_in file_caption | Processing_error
  | Page_panel file_caption int int int
  | Private_redirect string | Verified | Access_restricted string | Welcome
  | No_uploads | My_files_list int int
  | Already_deleted | No_permission | Deleted_refreshing | Delete_internal_error
  | Link_info string
  | Generating_link | Link_error_try_later | No_files_uploaded
  | Upload_done int string | Upload_log int int string | Session_ended
  | Private_only | Relay_warning
  | Send_files_now | Press_upload_first | Album_received | File_received
  | Waiting_for_files | Press_upload_or_send_link

text \<open>
  The calls a handler makes to the outside, in order. \<open>Job_fired\<close> records that the
  queue ran a job, with its name and the batch it read; \<open>Uncaught\<close> that an exception
  left the handler.
\<close>

datatype call =
    Get_chat_member int
  | Reply_text notice "InlineKeyboardButton list list"
  | Edit_message_text notice "InlineKeyboardButton list list"
  | Edit_text notice
  | Answer "notice option"
  | Send_message int notice "InlineKeyboardButton list list"
  | Copy_messages int "int list"
  | Forward_messages int "int list"
  | Delete_messages int "int list"
  | Delete_message int int
  | Delete_reply
  | Sleep nat
  | Job_fired string "int list"
  | Uncaught py_exception

text \<open>
  \<open>files\<close> is the table in insertion order (the order of the \<open>timestamp\<close> column,
  which defaults to the time of insertion), \<open>share_id\<close> its primary key.
  \<open>user_data_of\<close> is \<open>application.user_data\<close>, \<open>bot_data\<close> the pending media groups
  of \<open>context.bot_data\<close> (each the address of its \<open>message_ids\<close> list) and
  \<open>bot_username\<close> its key of that name.
\<close>

record world =
  files :: "(string \<times> file_row) list"
  user_data_of :: "int \<rightharpoonup> user_data"
  bot_data :: "string \<rightharpoonup> nat"
  bot_username :: "string option"
  heap :: "nat \<Rightarrow> int list"
  next_addr :: nat
  jobs :: "job list"
  trace :: "call list"

datatype sql = Select_share | Insert_share | Delete_share | Count_files | List_files

text \<open>
  The answers of the collaborators: the membership service, the relay into the private
  channel, the copy out of it, the deletion from it, the database (an exception for the
  statement that fails) and the random bytes of the next token.
\<close>

record env =
  get_chat_member :: "int \<Rightarrow> py_exception + ChatMemberStatus"
  forward_messages :: "int \<Rightarrow> int list \<Rightarrow> py_exception + int list"
  copy_messages :: "int \<Rightarrow> int list \<Rightarrow> py_exception + int list"
  delete_messages :: "int \<Rightarrow> int list \<Rightarrow> py_exception option"
  panel_message_id :: int
  db_fault :: "sql \<Rightarrow> py_exception option"
  token_bytes :: "8 word list"
  PRIVATE_CHANNEL_ID :: int

text \<open>An incoming update: a message or a callback query (\<open>query_data\<close> is then set).\<close>

record update =
  effective_user :: "int option"
  effective_chat :: int
  effective_chat_type :: ChatType
  msg_id :: int
  media_group_id :: "string option"
  message_text :: string
  query_data :: "string option"

definition no_user_data :: user_data where
  "no_user_data = \<lparr>state = None, session_message_ids = None, session_file_count = None,
     last_page_file_ids = None, last_control_panel_id = None, pending_share_id = None\<rparr>"

definition get_user_data :: "world \<Rightarrow> int \<Rightarrow> user_data" where
  "get_user_data w user_id = (case user_data_of w user_id of Some d \<Rightarrow> d | None \<Rightarrow> no_user_data)"

definition set_user_data :: "int \<Rightarrow> user_data \<Rightarrow> world \<Rightarrow> world" where
  "set_user_data user_id d w = w\<lparr>user_data_of := (user_data_of w)(user_id \<mapsto> d)\<rparr>"

definition called :: "call \<Rightarrow> world \<Rightarrow> world" where
  "called c w = w\<lparr>trace := trace w @ [c]\<rparr>"

fun py_ints :: "string list \<Rightarrow> py_exception + int list" where
  "py_ints [] = Inr []"
| "py_ints (s # ss) =
     (case py_int s of
        Inl exn \<Rightarrow> Inl exn
      | Inr n \<Rightarrow> (case py_ints ss of Inl exn \<Rightarrow> Inl exn | Inr ns \<Rightarrow> Inr (n # ns)))"

subsection \<open>The membership gate\<close>

definition is_user_in_group :: "env \<Rightarrow> int \<Rightarrow> world \<Rightarrow> bool \<times> world" where
  "is_user_in_group e user_id w =
     (let w = called (Get_chat_member user_id) w
      in case get_chat_member e user_id of
           Inr status \<Rightarrow> (status \<notin> set [LEFT, BANNED], w)
         | Inl exn \<Rightarrow> (False, w))"

definition require_group_membership ::
  "(env \<Rightarrow> update \<Rightarrow> world \<Rightarrow> world) \<Rightarrow> env \<Rightarrow> update \<Rightarrow> world \<Rightarrow> world" where
  "require_group_membership func e u w =
     (case effective_user u of
        None \<Rightarrow> w
      | Some user_id \<Rightarrow>
          (let (member, w) = is_user_in_group e user_id w
           in if member then func e u w
              else if query_data u \<noteq> None then called (Answer (Some Restricted_alert)) w
              else called (Reply_text Restricted_notice []) w))"

subsection \<open>Retrieval\<close>

definition show_shared_files_page :: "env \<Rightarrow> update \<Rightarrow> string \<Rightarrow> int \<Rightarrow> world \<Rightarrow> world" where
  "show_shared_files_page e u share_id page w =
     (case db_fault e Select_share of
        Some exn \<Rightarrow> called (Reply_text Processing_error []) w
      | None \<Rightarrow>
     (case map_of (files w) share_id of
        None \<Rightarrow> called (Reply_text Invalid_link []) w
      | Some row \<Rightarrow>
     (case py_ints (split CHR '','' (message_id row)) of
        Inl exn \<Rightarrow> called (Reply_text Processing_error []) w
      | Inr all_ids \<Rightarrow>
     (let total_files = int (length all_ids)
      in case paginate total_files FILES_PER_PAGE page of
        None \<Rightarrow> called (Reply_text (No_files_in (file_caption row)) []) w
      | Some (page, total_pages, offset) \<Rightarrow>
     (let ids_to_send = slice all_ids offset FILES_PER_PAGE;
          w = called (Copy_messages (effective_chat u) ids_to_send) w
      in case copy_messages e (effective_chat u) ids_to_send of
        Inl exn \<Rightarrow> called (Reply_text Processing_error []) w
      | Inr sent_messages \<Rightarrow>
     (case effective_user u of
        None \<Rightarrow> called (Reply_text Processing_error []) w
      | Some user_id \<Rightarrow>
     (let w = set_user_data user_id
                ((get_user_data w user_id)\<lparr>last_page_file_ids := Some sent_messages\<rparr>) w;
          w = called (Sleep 3) w;
          keyboard = create_pagination_keyboard page total_pages ''spage'' (Some share_id);
          w = called (Send_message (effective_chat u)
                        (Page_panel (file_caption row) page total_pages total_files) keyboard) w
      in set_user_data user_id
           ((get_user_data w user_id)\<lparr>last_control_panel_id := Some (panel_message_id e)\<rparr>) w)))))))"

definition start :: "env \<Rightarrow> update \<Rightarrow> string list \<Rightarrow> world \<Rightarrow> world" where
  "start e u args w =
     (case effective_user u of
        None \<Rightarrow> w
      | Some user \<Rightarrow>
     (let w = set_user_data user no_user_data w;
          target_share_id = (case args of [] \<Rightarrow> None | a # rest \<Rightarrow> Some a);
          target_share_id = (if \<not> truthy target_share_id
                             then pending_share_id (get_user_data w user)
                             else target_share_id)
      in if effective_chat_type u \<noteq> PRIVATE \<and> truthy target_share_id then
           called (Reply_text
                     (Private_redirect (share_link (or_empty (bot_username w)) (the target_share_id)))
                     []) w
         else if truthy target_share_id then
           (let (member, w) = is_user_in_group e user w
            in if member then
                 (let w = called (Reply_text Verified []) w;
                      w = set_user_data user ((get_user_data w user)\<lparr>pending_share_id := None\<rparr>) w;
                      w = show_shared_files_page e u (the target_share_id) 1 w
                  in called Delete_reply w)
               else
                 (let w = set_user_data user
                            ((get_user_data w user)\<lparr>pending_share_id := target_share_id\<rparr>) w;
                      retry_url = share_link (or_empty (bot_username w)) (the target_share_id)
                  in called (Reply_text (Access_restricted retry_url) []) w))
         else
           (let w = set_user_data user ((get_user_data w user)\<lparr>state := Some ''default''\<rparr>) w
            in called (Reply_text Welcome []) w)))"

subsection \<open>The uploader's own files\<close>

text \<open>
  \<open>ORDER BY timestamp DESC LIMIT FILES_PER_PAGE OFFSET offset\<close> over the uploader's rows
  is a slice of these rows in reverse insertion order.
\<close>

definition show_my_files_page :: "env \<Rightarrow> update \<Rightarrow> int \<Rightarrow> world \<Rightarrow> world" where
  "show_my_files_page e u page w =
     (case effective_user u of
        None \<Rightarrow> called (Uncaught AttributeError) w
      | Some user_id \<Rightarrow>
     (case db_fault e Count_files of
        Some exn \<Rightarrow> w
      | None \<Rightarrow>
     (let mine = filter (\<lambda>(sid, row). uploader_id row = user_id) (files w);
          total_files = int (length mine)
      in case paginate total_files FILES_PER_PAGE page of
        None \<Rightarrow>
          (if query_data u \<noteq> None then called (Edit_message_text No_uploads []) w
           else called (Reply_text No_uploads []) w)
      | Some (page, total_pages, offset) \<Rightarrow>
     (case db_fault e List_files of
        Some exn \<Rightarrow> w
      | None \<Rightarrow>
     (let files_on_page = slice (rev mine) offset FILES_PER_PAGE;
          file_keyboard =
            map (\<lambda>(sid, row).
                  [InlineKeyboardButton (File_text (file_caption row)) (''info:'' @ sid),
                   InlineKeyboardButton Delete_text (''delete:'' @ sid @ '':'' @ str_int page)])
                files_on_page;
          pagination_keyboard = create_pagination_keyboard page total_pages ''page'' None;
          full_keyboard = file_keyboard @ pagination_keyboard
      in if query_data u \<noteq> None
         then called (Edit_message_text (My_files_list page total_pages) full_keyboard) w
         else called (Reply_text (My_files_list page total_pages) full_keyboard) w)))))"

definition my_files_command_body :: "env \<Rightarrow> update \<Rightarrow> world \<Rightarrow> world" where
  "my_files_command_body e u w =
     (if effective_chat_type u \<noteq> PRIVATE then called (Reply_text Private_only []) w
      else show_my_files_page e u 1 w)"

definition my_files_command :: "env \<Rightarrow> update \<Rightarrow> world \<Rightarrow> world" where
  "my_files_command = require_group_membership my_files_command_body"

subsection \<open>Inline buttons\<close>

text \<open>The \<open>spage\<close> preamble: retract the items and the panel of the page shown before.\<close>

definition retract_last_page :: "update \<Rightarrow> int \<Rightarrow> world \<Rightarrow> world" where
  "retract_last_page u user_id w =
     (let d = get_user_data w user_id;
          last_page_ids = (case last_page_file_ids d of Some ids \<Rightarrow> ids | None \<Rightarrow> []);
          w = set_user_data user_id (d\<lparr>last_page_file_ids := None\<rparr>) w;
          w = (if last_page_ids \<noteq> [] then called (Delete_messages (effective_chat u) last_page_ids) w
               else w);
          d = get_user_data w user_id;
          last_panel_id = last_control_panel_id d;
          w = set_user_data user_id (d\<lparr>last_control_panel_id := None\<rparr>) w
      in case last_panel_id of
           None \<Rightarrow> w
         | Some panel \<Rightarrow> if panel \<noteq> 0 then called (Delete_message (effective_chat u) panel) w else w)"

text \<open>The \<open>delete\<close> branch, for \<open>parts = [action, share_id, page]\<close>.\<close>

definition delete_branch :: "env \<Rightarrow> update \<Rightarrow> int \<Rightarrow> string \<Rightarrow> string \<Rightarrow> world \<Rightarrow> world" where
  "delete_branch e u user_id share_id page_part w =
     (case py_int page_part of
        Inl exn \<Rightarrow> called (Uncaught exn) w
      | Inr current_page \<Rightarrow>
     (case db_fault e Select_share of
        Some exn \<Rightarrow> called (Reply_text Delete_internal_error []) w
      | None \<Rightarrow>
     (case map_of (files w) share_id of
        None \<Rightarrow> called (Answer (Some Already_deleted)) w
      | Some row \<Rightarrow>
          if uploader_id row \<noteq> user_id then called (Answer (Some No_permission)) w
          else
     (case db_fault e Delete_share of
        Some exn \<Rightarrow> called (Reply_text Delete_internal_error []) w
      | None \<Rightarrow>
     (let w = w\<lparr>files := filter (\<lambda>(sid, r). sid \<noteq> share_id) (files w)\<rparr>;
          w = called (Answer (Some Deleted_refreshing)) w;
          w = show_my_files_page e u current_page w
      in case py_ints (split CHR '','' (message_id row)) of
           Inl exn \<Rightarrow> w
         | Inr message_ids \<Rightarrow>
             (let w = called (Delete_messages (PRIVATE_CHANNEL_ID e) message_ids) w
              in case delete_messages e (PRIVATE_CHANNEL_ID e) message_ids of
                   None \<Rightarrow> w
                 | Some (BadRequest Message_cant_be_deleted) \<Rightarrow> w
                 | Some (BadRequest other) \<Rightarrow> called (Reply_text Delete_internal_error []) w
                 | Some exn \<Rightarrow> w))))))"

text \<open>A callback query always carries its data and its sender.\<close>

definition button_callback_handler :: "env \<Rightarrow> update \<Rightarrow> world \<Rightarrow> world" where
  "button_callback_handler e u w =
     (case (query_data u, effective_user u) of
        (Some data, Some user_id) \<Rightarrow>
          (let w = called (Answer None) w;
               parts = split_max 2 CHR '':'' data;
               action = (case parts of [] \<Rightarrow> [] | a # rest \<Rightarrow> a);
               w = (if action = ''spage'' then retract_last_page u user_id w else w)
           in if action = ''page'' then
                (if length parts < 2 then called (Uncaught IndexError) w
                 else case py_int (parts ! 1) of
                        Inl exn \<Rightarrow> called (Uncaught exn) w
                      | Inr page \<Rightarrow> show_my_files_page e u page w)
              else if action = ''spage'' then
                (if length parts < 3 then w
                 else case py_int (parts ! 1) of
                        Inl exn \<Rightarrow> called (Uncaught exn) w
                      | Inr page \<Rightarrow> show_shared_files_page e u (parts ! 2) page w)
              else if action = ''delete'' then
                (if length parts < 3 then w
                 else delete_branch e u user_id (parts ! 1) (parts ! 2) w)
              else if action = ''info'' then
                (if length parts < 2 then called (Uncaught IndexError) w
                 else called (Reply_text
                                (Link_info (share_link (or_empty (bot_username w)) (parts ! 1))) []) w)
              else if action = ''noop'' then w
              else w)
      | other \<Rightarrow> called (Uncaught AttributeError) w)"

subsection \<open>Upload sessions\<close>

definition button_handler_body :: "env \<Rightarrow> update \<Rightarrow> world \<Rightarrow> world" where
  "button_handler_body e u w =
     (if effective_chat_type u \<noteq> PRIVATE then w
      else case effective_user u of
        None \<Rightarrow> w
      | Some user_id \<Rightarrow>
          (let w = set_user_data user_id
                     (no_user_data\<lparr>state := Some ''awaiting_file'', session_message_ids := Some [],
                        session_file_count := Some 0\<rparr>) w
           in called (Reply_text Send_files_now []) w))"

definition button_handler :: "env \<Rightarrow> update \<Rightarrow> world \<Rightarrow> world" where
  "button_handler = require_group_membership button_handler_body"

definition finish_upload_handler :: "env \<Rightarrow> update \<Rightarrow> world \<Rightarrow> world" where
  "finish_upload_handler e u w =
     (case effective_user u of
        None \<Rightarrow> w
      | Some user_id \<Rightarrow>
          if effective_chat_type u \<noteq> PRIVATE then w
          else
            (let w = called (Reply_text Generating_link []) w;
                 d = get_user_data w user_id;
                 session_ids = (case session_message_ids d of Some ids \<Rightarrow> ids | None \<Rightarrow> []);
                 total_files = (case session_file_count d of Some n \<Rightarrow> n | None \<Rightarrow> 0);
                 w = set_user_data user_id
                       (d\<lparr>session_message_ids := None, session_file_count := None\<rparr>) w;
                 w = (if session_ids \<noteq> [] then
                        (let share_id = token_urlsafe (token_bytes e);
                             final_link = share_link (fmt (bot_username w)) share_id;
                             ids_str = join '','' (map str_int session_ids);
                             caption = Batch_upload total_files
                         in if db_fault e Insert_share \<noteq> None \<or> map_of (files w) share_id \<noteq> None
                            then called (Edit_text Link_error_try_later) w
                            else
                              (let w = w\<lparr>files := files w @
                                          [(share_id, \<lparr>message_id = ids_str, uploader_id = user_id,
                                                       file_caption = caption, file_type = Collection\<rparr>)]\<rparr>;
                                   w = called (Edit_text (Upload_done total_files final_link)) w
                               in called (Send_message (PRIVATE_CHANNEL_ID e)
                                            (Upload_log user_id total_files final_link) []) w))
                      else called (Edit_text No_files_uploaded) w);
                 w = set_user_data user_id (no_user_data\<lparr>state := Some ''default''\<rparr>) w
             in called (Reply_text Session_ended []) w))"


subsection \<open>Relaying files: the debounced job\<close>

text \<open>
  The job forwards the batch its data refer to, appends the new ids to the session of the
  user when \<open>application.user_data\<close> has one (otherwise they go to a dictionary that is
  thrown away), and at last removes the pending group of its own name.
\<close>

definition process_and_collect_files_job :: "env \<Rightarrow> job \<Rightarrow> world \<Rightarrow> world" where
  "process_and_collect_files_job e j w =
     (let message_ids = heap w (job_message_ids j);
          w = called (Job_fired (job_name j) message_ids) w;
          w = called (Forward_messages (job_chat_id j) message_ids) w;
          w = (case forward_messages e (job_chat_id j) message_ids of
                 Inr forwarded_ids \<Rightarrow>
                   (case user_data_of w (job_user_id j) of
                      None \<Rightarrow> w
                    | Some d \<Rightarrow>
                        set_user_data (job_user_id j)
                          (d\<lparr>session_message_ids :=
                               Some ((case session_message_ids d of Some ids \<Rightarrow> ids | None \<Rightarrow> [])
                                     @ forwarded_ids),
                             session_file_count :=
                               Some ((case session_file_count d of Some n \<Rightarrow> n | None \<Rightarrow> 0)
                                     + int (length forwarded_ids))\<rparr>) w)
               | Inl exn \<Rightarrow> called (Send_message (job_chat_id j) Relay_warning []) w)
      in if job_name j \<noteq> [] \<and> bot_data w (job_name j) \<noteq> None
         then w\<lparr>bot_data := (bot_data w)(job_name j := None)\<rparr>
         else w)"

text \<open>
  \<open>file_handler\<close> at time \<open>now\<close>. A job without a name is named after its callback
  by the queue.
\<close>

definition file_handler_body :: "rat \<Rightarrow> env \<Rightarrow> update \<Rightarrow> world \<Rightarrow> world" where
  "file_handler_body now e u w =
     (if effective_chat_type u \<noteq> PRIVATE then w
      else case effective_user u of
        None \<Rightarrow> w
      | Some user \<Rightarrow>
          (let w = set_user_data user (get_user_data w user) w
           in if state (get_user_data w user) \<noteq> Some ''awaiting_file''
              then called (Reply_text Press_upload_first []) w
              else if truthy (media_group_id u) then
                (let name = the (media_group_id u);
                     (a, w) = (case bot_data w name of
                                 Some a \<Rightarrow> (a, w)
                               | None \<Rightarrow>
                                   (next_addr w,
                                    w\<lparr>bot_data := (bot_data w)(name \<mapsto> next_addr w),
                                      heap := (heap w)(next_addr w := []),
                                      next_addr := Suc (next_addr w)\<rparr>));
                     is_first_in_group = (heap w a = []);
                     w = w\<lparr>heap := (heap w)(a := heap w a @ [msg_id u])\<rparr>;
                     w = (if is_first_in_group then called (Reply_text Album_received []) w else w);
                     w = w\<lparr>jobs := filter (\<lambda>j. job_name j \<noteq> name) (jobs w)\<rparr>
                 in w\<lparr>jobs := jobs w @
                        [\<lparr>job_name = name, due = now + ALBUM_DELAY, job_user_id = user,
                          job_chat_id = effective_chat u, job_message_ids = a\<rparr>]\<rparr>)
              else
                (let w = called (Reply_text File_received []) w;
                     a = next_addr w;
                     w = w\<lparr>heap := (heap w)(a := [msg_id u]), next_addr := Suc a\<rparr>
                 in w\<lparr>jobs := jobs w @
                        [\<lparr>job_name = ''process_and_collect_files_job'', due = now + 0,
                          job_user_id = user, job_chat_id = effective_chat u,
                          job_message_ids = a\<rparr>]\<rparr>)))"

definition file_handler :: "rat \<Rightarrow> env \<Rightarrow> update \<Rightarrow> world \<Rightarrow> world" where
  "file_handler now = require_group_membership (file_handler_body now)"

text \<open>
  The job queue at time \<open>t\<close>: every job that is due runs once, earliest first, and
  leaves the queue.
\<close>

definition run_due_jobs :: "env \<Rightarrow> rat \<Rightarrow> world \<Rightarrow> world" where
  "run_due_jobs e t w =
     (let ready = filter (\<lambda>j. due j \<le> t) (jobs w);
          waiting = filter (\<lambda>j. \<not> due j \<le> t) (jobs w)
      in fold (process_and_collect_files_job e) (sort_key due ready) (w\<lparr>jobs := waiting\<rparr>))"

text \<open>
  A run of the event loop over files arriving at the given times: before each arrival the
  jobs due by then have run.
\<close>

fun receive_files :: "env \<Rightarrow> (rat \<times> update) list \<Rightarrow> world \<Rightarrow> world" where
  "receive_files e [] w = w"
| "receive_files e ((t, u) # rest) w = receive_files e rest (file_handler t e u (run_due_jobs e t w))"

text \<open>The batches of the jobs of one name that have run, oldest first.\<close>

fun drains :: "string \<Rightarrow> call list \<Rightarrow> int list list" where
  "drains name [] = []"
| "drains name (Job_fired n ids # cs) = (if n = name then ids # drains name cs else drains name cs)"
| "drains name (c # cs) = drains name cs"

text \<open>Consecutive arrival times: in order, and less than \<open>d\<close> apart.\<close>

fun gaps_below :: "rat \<Rightarrow> rat list \<Rightarrow> bool" where
  "gaps_below d (s # t # ts) = (s \<le> t \<and> t - s < d \<and> gaps_below d (t # ts))"
| "gaps_below d ts = True"

subsection \<open>Text messages\<close>

definition text_message_handler :: "env \<Rightarrow> update \<Rightarrow> world \<Rightarrow> world" where
  "text_message_handler e u w =
     (if effective_chat_type u = CHANNEL then w
      else case effective_user u of
        None \<Rightarrow> w
      | Some user \<Rightarrow>
          if effective_chat_type u \<noteq> PRIVATE then w
          else
            (case match_share_link (or_empty (bot_username w)) (message_text u) of
               Some token \<Rightarrow> start e u [token] w
             | None \<Rightarrow>
                 if state (get_user_data w user) = Some ''awaiting_file''
                 then called (Reply_text Waiting_for_files []) w
                 else called (Reply_text Press_upload_or_send_link []) w))"

subsection \<open>A concrete environment and world\<close>

text \<open>
  User 7 is a member of the required group, user 8 has left it, and the membership service
  times out for everybody else. The relay and the copy renumber the messages.
\<close>

definition example_env :: env where
  "example_env =
     \<lparr>get_chat_member = (\<lambda>user_id. if user_id = 7 then Inr MEMBER
                                    else if user_id = 8 then Inr LEFT else Inl TimedOut),
      forward_messages = (\<lambda>chat ids. Inr (map (\<lambda>i. i + 1000) ids)),
      copy_messages = (\<lambda>chat ids. Inr (map (\<lambda>i. i + 5000) ids)),
      delete_messages = (\<lambda>chat ids. None),
      panel_message_id = 900,
      db_fault = (\<lambda>statement. None),
      token_bytes = [1, 2, 3, 4, 5, 6, 7, 255],
      PRIVATE_CHANNEL_ID = - 100\<rparr>"

definition example_world :: world where
  "example_world =
     \<lparr>files = [], user_data_of = Map.empty, bot_data = Map.empty, bot_username = Some ''share_bot'',
      heap = (\<lambda>a. []), next_addr = 0, jobs = [], trace = []\<rparr>"

text \<open>A private message of user 7.\<close>

definition example_update :: update where
  "example_update =
     \<lparr>effective_user = Some 7, effective_chat = 7, effective_chat_type = PRIVATE, msg_id = 41,
      media_group_id = None, message_text = [], query_data = None\<rparr>"

text \<open>User 7 has begun an upload and two of his files have been relayed.\<close>

definition uploading_world :: world where
  "uploading_world =
     example_world\<lparr>user_data_of :=
       [7 \<mapsto> no_user_data\<lparr>state := Some ''awaiting_file'', session_message_ids := Some [101, 102],
                               session_file_count := Some 2\<rparr>]\<rparr>"

text \<open>The database refuses the insertion.\<close>

definition failing_db_env :: env where
  "failing_db_env =
     example_env\<lparr>db_fault := (\<lambda>statement. if statement = Insert_share then Some DatabaseError
                                         else None)\<rparr>"

text \<open>A share of twelve items, uploaded by user 7.\<close>

definition shared_world :: world where
  "shared_world =
     example_world\<lparr>files :=
       [(''AQIDBAUGB_8'', \<lparr>message_id = ''1,2,3,4,5,6,7,8,9,10,11,12'', uploader_id = 7,
                          file_caption = Batch_upload 12, file_type = Collection\<rparr>)]\<rparr>"

text \<open>A callback query of the given user, in his private chat.\<close>

definition callback_of :: "int \<Rightarrow> string \<Rightarrow> update" where
  "callback_of user_id data =
     \<lparr>effective_user = Some user_id, effective_chat = user_id, effective_chat_type = PRIVATE,
      msg_id = 50, media_group_id = None, message_text = [], query_data = Some data\<rparr>"

text \<open>A file of user 7 that belongs to the album \<open>album1\<close>.\<close>

definition album_update :: "int \<Rightarrow> update" where
  "album_update m = example_update\<lparr>msg_id := m, media_group_id := Some ''album1''\<rparr>"

subsection \<open>Observers\<close>

text \<open>The item references of a row, read as \<open>show_shared_files_page\<close> reads them.\<close>

definition item_refs :: "file_row \<Rightarrow> py_exception + int list" where
  "item_refs row = py_ints (split CHR '','' (message_id row))"

definition has_items :: "file_row \<Rightarrow> bool" where
  "has_items row = (case item_refs row of Inl exn \<Rightarrow> False | Inr ids \<Rightarrow> ids \<noteq> [])"

text \<open>The references a session has accumulated (\<open>user_data.pop('session_message_ids', [])\<close>).\<close>

definition session_refs :: "world \<Rightarrow> int \<Rightarrow> int list" where
  "session_refs w user_id =
     (case session_message_ids (get_user_data w user_id) of Some ids \<Rightarrow> ids | None \<Rightarrow> [])"

text \<open>The \<open>INSERT\<close> of finish-upload raises: the database fails or the token is taken.\<close>

definition insert_fails :: "env \<Rightarrow> world \<Rightarrow> bool" where
  "insert_fails e w =
     (db_fault e Insert_share \<noteq> None \<or> map_of (files w) (token_urlsafe (token_bytes e)) \<noteq> None)"

text \<open>
  The state of a media group between two of its items: its buffer is the list at address
  \<open>a\<close> and holds \<open>ids\<close>, exactly one job of its name is scheduled, due
  \<open>ALBUM_DELAY\<close> after the last arrival \<open>t\<close>, and the user is still collecting.
\<close>

definition album_pending :: "string \<Rightarrow> int \<Rightarrow> int \<Rightarrow> nat \<Rightarrow> int list \<Rightarrow> rat \<Rightarrow> world \<Rightarrow> bool" where
  "album_pending g user chat a ids t w =
     (bot_data w g = Some a \<and> heap w a = ids \<and> ids \<noteq> []
      \<and> filter (\<lambda>j. job_name j = g) (jobs w) =
            [\<lparr>job_name = g, due = t + ALBUM_DELAY, job_user_id = user, job_chat_id = chat,
              job_message_ids = a\<rparr>]
      \<and> state (get_user_data w user) = Some ''awaiting_file'')"

text \<open>An item of the album \<open>g\<close>, sent by \<open>user\<close> in the private chat \<open>chat\<close>.\<close>

definition album_item :: "string \<Rightarrow> int \<Rightarrow> int \<Rightarrow> update \<Rightarrow> bool" where
  "album_item g user chat u =
     (effective_user u = Some user \<and> effective_chat u = chat \<and> effective_chat_type u = PRIVATE
      \<and> media_group_id u = Some g)"

text \<open>The membership service answers that the user is in the group.\<close>

definition is_member :: "env \<Rightarrow> int \<Rightarrow> bool" where
  "is_member e user =
     (case get_chat_member e user of Inl exn \<Rightarrow> False | Inr status \<Rightarrow> status \<notin> set [LEFT, BANNED])"

fun is_delivery :: "call \<Rightarrow> bool" where
  "is_delivery (Copy_messages chat ids) = True"
| "is_delivery c = False"

fun is_gate_check :: "call \<Rightarrow> bool" where
  "is_gate_check (Get_chat_member user_id) = True"
| "is_gate_check c = False"

fun is_retraction :: "call \<Rightarrow> bool" where
  "is_retraction (Delete_messages chat ids) = True"
| "is_retraction c = False"

section \<open>Properties\<close>

subsection \<open>The gate fails closed\<close>

text \<open>
  C6. Whenever the call to the membership service raises, whatever the exception and the
  user, \<open>is_user_in_group\<close> answers \<open>False\<close>: the user is treated as not authorized.
\<close>

theorem is_user_in_group_fails_closed:
  "get_chat_member e user_id = Inl exn \<Longrightarrow> fst (is_user_in_group e user_id w) = False"
  by (simp add: is_user_in_group_def)

theorem is_user_in_group_fails_closed_witness:
  "get_chat_member example_env 9 = Inl TimedOut
   \<and> fst (is_user_in_group example_env 9 example_world) = False"
  using is_user_in_group_fails_closed [of example_env 9 TimedOut example_world]
  by (simp add: example_env_def)

subsection \<open>Page windows\<close>

lemma ceil_div_pos:
  fixes N S :: int
  assumes "0 < S"
  shows "(N + S - 1) div S = - (- N div S)"
proof (cases "N mod S = 0")
  case True
  have "S * (N div S) = N" using True by (simp add: mod_0_imp_dvd)
  then have "N + S - 1 = S * (N div S) + (S - 1)" by simp
  then have "(N + S - 1) div S = N div S"
    using assms by (intro int_div_pos_eq[where r = "S - 1"]) auto
  moreover have "- N div S = - (N div S)"
    using True assms by (simp add: zdiv_zminus1_eq_if)
  ultimately show ?thesis by simp
next
  case False
  have r: "0 < N mod S" "N mod S < S"
    using False pos_mod_sign [OF assms, of N] pos_mod_bound [OF assms, of N] by auto
  have "S * (N div S) + N mod S = N" by simp
  then have "N + S - 1 = S * (N div S + 1) + (N mod S - 1)"
    by (simp add: algebra_simps)
  then have "(N + S - 1) div S = N div S + 1"
    using assms r by (intro int_div_pos_eq[where r = "N mod S - 1"]) auto
  moreover have "- N div S = - (N div S) - 1"
    using False assms by (simp add: zdiv_zminus1_eq_if)
  ultimately show ?thesis by simp
qed

lemma total_pages_ceiling:
  fixes N S :: int
  assumes "0 < S"
  shows "(N + S - 1) div S = \<lceil>real_of_int N / real_of_int S\<rceil>"
  using ceil_div_pos[OF assms, of N] by (simp add: ceiling_divide_eq_div)

lemma total_pages_pos:
  fixes N S :: int
  assumes "0 < S" "1 \<le> N"
  shows "1 \<le> (N + S - 1) div S"
proof -
  have "0 < (N + S - 1) div S"
    using pos_imp_zdiv_pos_iff [OF assms(1), of "N + S - 1"] assms(2) by simp
  then show ?thesis by simp
qed

lemma offset_below_total:
  fixes N S p :: int
  assumes "0 < S" "1 \<le> p" "p \<le> (N + S - 1) div S"
  shows "(p - 1) * S < N"
proof -
  have "p * S \<le> ((N + S - 1) div S) * S" using assms by (simp add: mult_right_mono)
  also have "\<dots> = (N + S - 1) - (N + S - 1) mod S"
    by (simp add: minus_mod_eq_div_mult)
  also have "\<dots> \<le> N + S - 1"
    using pos_mod_sign [OF assms(1), of "N + S - 1"] by simp
  finally show ?thesis by (simp add: algebra_simps)
qed

lemma slice_length:
  "0 \<le> offset \<Longrightarrow> 0 \<le> n \<Longrightarrow>
   int (length (slice xs offset n)) = max 0 (min n (int (length xs) - offset))"
  by (auto simp: slice_def)

text \<open>
  C2, as the code has it. Both page functions return before paginating when there is no
  item, so the computation is only reached with at least one. For every page size
  \<open>S > 0\<close>, every non-empty list of \<open>N\<close> items and every requested page \<open>p\<close>, it
  yields \<open>total_pages = max 1 (ceiling (N / S))\<close>, the effective page
  \<open>max 1 (min p total_pages)\<close>, which lies in \<open>[1, total_pages]\<close>, the offset
  \<open>(page - 1) * S\<close>, and a window \<open>xs[offset : offset + S]\<close> of length
  \<open>min S (N - offset)\<close>, which is at least one.
\<close>

theorem paginate_window:
  fixes xs :: "'a list"
  assumes "0 < S" and "xs \<noteq> []"
  shows "\<exists>page total_pages offset.
     paginate (int (length xs)) S p = Some (page, total_pages, offset)
     \<and> total_pages = max 1 \<lceil>real (length xs) / real_of_int S\<rceil>
     \<and> page = max 1 (min p total_pages) \<and> 1 \<le> page \<and> page \<le> total_pages
     \<and> offset = (page - 1) * S
     \<and> int (length (slice xs offset S)) = min S (int (length xs) - offset)
     \<and> 0 < length (slice xs offset S)"
proof -
  define N where "N = int (length xs)"
  define T where "T = (N + S - 1) div S"
  define page where "page = max 1 (min p T)"
  define offset where "offset = (page - 1) * S"
  have N: "1 \<le> N" using assms(2) by (cases xs) (simp_all add: N_def)
  have T1: "1 \<le> T" unfolding T_def using total_pages_pos [OF assms(1) N] .
  have Tc: "T = \<lceil>real (length xs) / real_of_int S\<rceil>"
    unfolding T_def using total_pages_ceiling [OF assms(1), of N] by (simp add: N_def)
  have pg: "1 \<le> page" "page \<le> T" using T1 by (auto simp: page_def)
  have off0: "0 \<le> offset" using pg assms(1) by (simp add: offset_def)
  have offN: "offset < N"
    unfolding offset_def using offset_below_total [OF assms(1) pg(1)] pg(2) by (simp add: T_def)
  have len: "int (length (slice xs offset S)) = min S (N - offset)"
    using slice_length [OF off0, of S xs] assms(1) offN by (simp add: N_def)
  have pos: "0 < length (slice xs offset S)"
    using len assms(1) offN by (cases "slice xs offset S") auto
  have "paginate N S p = Some (page, T, offset)"
    using N by (simp add: paginate_def Let_def T_def page_def offset_def)
  then show ?thesis
    using Tc T1 pg len pos unfolding N_def [symmetric] page_def [symmetric]
    by (auto simp: offset_def page_def N_def)
qed

theorem paginate_window_witness:
  "0 < (2::int) \<and> [1::int, 2, 3] \<noteq> []
   \<and> paginate (int (length [1::int, 2, 3])) 2 5 = Some (2, 2, 2)
   \<and> slice [1::int, 2, 3] 2 2 = [3]"
  using paginate_window [of 2 "[1::int, 2, 3]" 5]
  by (simp add: paginate_def slice_def)

text \<open>
  With no item the computation yields nothing, so in particular no \<open>total_pages\<close> equal
  to \<open>max 1 (ceiling (0 / S))\<close>: the claim as stated for every \<open>N \<ge> 0\<close> fails at
  \<open>N = 0\<close>.
\<close>

theorem paginate_no_items_counterexample:
  "map_option (fst \<circ> snd) (paginate 0 FILES_PER_PAGE 1)
   \<noteq> Some (max 1 \<lceil>real_of_int 0 / real_of_int FILES_PER_PAGE\<rceil>)"
  by (simp add: paginate_def)

subsection \<open>The pagination keyboard\<close>

lemma page_number_page_button [simp]:
  "page_number (page_button current_page callback_prefix share_id p) = Some p"
  by (simp add: page_button_def)











subsection \<open>Strings: decimal numbers, split and join\<close>

lemma is_digit_digit_char: "d < 10 \<Longrightarrow> is_digit (digit_char d)"
  by (simp add: is_digit_def digit_char_def)

lemma digit_val_digit_char: "d < 10 \<Longrightarrow> digit_val (digit_char d) = d"
  by (simp add: digit_val_def digit_char_def)

lemma str_nat_digits: "list_all is_digit (str_nat n)"
  by (induction n rule: str_nat.induct) (subst str_nat.simps, simp add: is_digit_digit_char)

lemma str_nat_nonempty: "str_nat n \<noteq> []"
  by (subst str_nat.simps) simp

lemma nat_of_digits_snoc: "nat_of_digits (s @ [c]) = 10 * nat_of_digits s + digit_val c"
  by (simp add: nat_of_digits_def)

lemma nat_of_digits_str_nat: "nat_of_digits (str_nat n) = n"
proof (induction n rule: str_nat.induct)
  case (1 n)
  show ?case
  proof (cases "n < 10")
    case True
    then show ?thesis by (subst str_nat.simps) (simp add: nat_of_digits_def digit_val_digit_char)
  next
    case False
    with 1 show ?thesis
      by (subst str_nat.simps) (simp add: nat_of_digits_snoc digit_val_digit_char)
  qed
qed

lemma is_digit_not: "is_digit c \<Longrightarrow> c \<noteq> CHR '','' \<and> c \<noteq> CHR ''-''"
  by (auto simp: is_digit_def)

lemma py_int_str_int: "py_int (str_int i) = Inr i"
proof (cases "i < 0")
  case True
  then show ?thesis
    using str_nat_digits [of "nat (- i)"] str_nat_nonempty [of "nat (- i)"]
    by (simp add: py_int_def str_int_def nat_of_digits_str_nat)
next
  case False
  obtain c cs where s: "str_nat (nat i) = c # cs"
    using str_nat_nonempty [of "nat i"] by (cases "str_nat (nat i)") auto
  have d: "list_all is_digit (c # cs)" using str_nat_digits [of "nat i"] s by simp
  then have "c \<noteq> CHR ''-''" using is_digit_not [of c] by simp
  then show ?thesis
    using False d nat_of_digits_str_nat [of "nat i"] s
    by (simp add: py_int_def str_int_def)
qed

lemma comma_not_in_str_nat: "CHR '','' \<notin> set (str_nat n)"
proof
  assume "CHR '','' \<in> set (str_nat n)"
  then have "is_digit CHR '',''" using str_nat_digits [of n] by (simp add: list_all_iff)
  then show False by (simp add: is_digit_def)
qed

lemma comma_not_in_str_int: "CHR '','' \<notin> set (str_int i)"
  by (simp add: str_int_def comma_not_in_str_nat)

lemma takeWhile_sep: "sep \<notin> set p \<Longrightarrow> takeWhile (\<lambda>c. c \<noteq> sep) (p @ sep # r) = p"
  by (induction p) auto

lemma dropWhile_sep: "sep \<notin> set p \<Longrightarrow> dropWhile (\<lambda>c. c \<noteq> sep) (p @ sep # r) = sep # r"
  by (induction p) auto

lemma join_Cons: "ps \<noteq> [] \<Longrightarrow> join sep (p # ps) = p @ sep @ join sep ps"
  by (cases ps) simp_all

lemma split_max_join:
  "ps \<noteq> [] \<Longrightarrow> \<forall>p \<in> set ps. sep \<notin> set p \<Longrightarrow> length ps \<le> Suc n \<Longrightarrow>
   split_max n sep (join [sep] ps) = ps"
proof (induction ps arbitrary: n rule: list_nonempty_induct)
  case (single p)
  then show ?case by (cases n) simp_all
next
  case (cons p ps)
  then obtain m where n: "n = Suc m" by (cases n) auto
  have notin: "sep \<notin> set p" using cons.prems(1) by simp
  have tw: "takeWhile (\<lambda>c. c \<noteq> sep) (p @ sep # join [sep] ps) = p"
    using notin by (rule takeWhile_sep)
  have dw: "dropWhile (\<lambda>c. c \<noteq> sep) (p @ sep # join [sep] ps) = sep # join [sep] ps"
    using notin by (rule dropWhile_sep)
  have ih: "split_max m sep (join [sep] ps) = ps"
    using cons.IH [of m] cons.prems n by simp
  show ?case
    using n tw dw ih by (simp add: join_Cons [OF cons.hyps])
qed

lemma length_join: "ps \<noteq> [] \<Longrightarrow> length ps \<le> Suc (length (join [sep] ps))"
  by (induction ps rule: list_nonempty_induct) (simp_all add: join_Cons)

lemma split_join:
  "ps \<noteq> [] \<Longrightarrow> \<forall>p \<in> set ps. sep \<notin> set p \<Longrightarrow> split sep (join [sep] ps) = ps"
  unfolding split_def by (rule split_max_join) (simp_all add: length_join)

lemma py_ints_map_str_int: "py_ints (map str_int ids) = Inr ids"
  by (induction ids) (simp_all add: py_int_str_int)

lemma item_refs_round_trip:
  "ids \<noteq> [] \<Longrightarrow> py_ints (split CHR '','' (join '','' (map str_int ids))) = Inr ids"
proof -
  assume "ids \<noteq> []"
  then have "split CHR '','' (join '','' (map str_int ids)) = map str_int ids"
    by (intro split_join) (simp_all add: comma_not_in_str_int)
  then show ?thesis by (simp add: py_ints_map_str_int)
qed

subsection \<open>Share links\<close>

lemma b64_alphabet_token: "list_all is_token_char b64_alphabet"
  by (simp add: b64_alphabet_def is_token_char_def)

lemma length_b64_alphabet: "length b64_alphabet = 64"
  by (simp add: b64_alphabet_def)

lemma b64_char_token: "is_token_char (b64_char i)"
proof -
  have "b64_char i \<in> set b64_alphabet"
    unfolding b64_char_def by (rule nth_mem) (simp add: length_b64_alphabet)
  then show ?thesis using b64_alphabet_token by (simp add: list_all_iff)
qed

lemma urlsafe_b64encode_token: "list_all is_token_char (urlsafe_b64encode bs)"
  by (induction bs rule: urlsafe_b64encode.induct) (simp_all add: Let_def b64_char_token)

lemma urlsafe_b64encode_nonempty: "bs \<noteq> [] \<Longrightarrow> urlsafe_b64encode bs \<noteq> []"
  by (induction bs rule: urlsafe_b64encode.induct) (simp_all add: Let_def)

lemma length_token_urlsafe: "length bs = 8 \<Longrightarrow> length (token_urlsafe bs) = 11"
proof -
  assume "length bs = 8"
  then obtain a b c d e f g h where "bs = [a, b, c, d, e, f, g, h]"
    by (auto simp: length_Suc_conv numeral_eq_Suc)
  then show ?thesis by (simp add: token_urlsafe_def Let_def)
qed

lemma strip_prefix_append [simp]: "strip_prefix p (p @ r) = Some r"
  by (simp add: strip_prefix_def)

lemma match_share_link_own:
  assumes "token \<noteq> []" and "list_all is_token_char token"
  shows "match_share_link name (share_link name token) = Some token"
proof -
  have tw: "takeWhile is_token_char token = token"
    using assms(2) by (simp add: list_all_iff)
  have 1: "strip_prefix ''http'' (share_link name token) = Some (''s://t.me/'' @ name @ ''?start='' @ token)"
    by (simp add: share_link_def strip_prefix_def)
  have 2: "strip_prefix ''s'' (''s://t.me/'' @ name @ ''?start='' @ token)
           = Some (''://t.me/'' @ name @ ''?start='' @ token)"
    by (simp add: strip_prefix_def)
  have 3: "strip_prefix (''://t.me/'' @ name @ ''?start='') (''://t.me/'' @ name @ ''?start='' @ token)
           = Some token"
    using strip_prefix_append [of "''://t.me/'' @ name @ ''?start=''" token] by simp
  show ?thesis
    unfolding match_share_link_def 1 option.case 2 Let_def 3 tw using assms(1) by simp
qed

text \<open>
  C9. For the token made at finish-upload from any eight random bytes, and a bot user name
  of Telegram's alphabet \<open>[A-Za-z0-9_]\<close>, the link
  \<open>https://t.me/<bot_username>?start=<token>\<close> that \<open>finish_upload_handler\<close> builds is
  matched by the pattern of \<open>text_message_handler\<close>, the group extracted is the token
  itself, and the handler goes on to \<open>start\<close> with it.
\<close>

theorem share_link_round_trip:
  assumes "length random_bytes = 8"
    and "bot_username w = Some name" and "list_all is_username_char name"
    and "effective_chat_type u = PRIVATE" and "effective_user u = Some user_id"
    and "message_text u = share_link (fmt (bot_username w)) (token_urlsafe random_bytes)"
  shows "match_share_link (or_empty (bot_username w)) (message_text u) = Some (token_urlsafe random_bytes)
     \<and> text_message_handler e u w = start e u [token_urlsafe random_bytes] w"
proof -
  have ne: "token_urlsafe random_bytes \<noteq> []"
    using length_token_urlsafe [OF assms(1)] by auto
  have tok: "list_all is_token_char (token_urlsafe random_bytes)"
    by (simp add: token_urlsafe_def urlsafe_b64encode_token)
  have m: "match_share_link (or_empty (bot_username w)) (message_text u) = Some (token_urlsafe random_bytes)"
    using match_share_link_own [OF ne tok, of name] assms(2,6) by (simp add: or_empty_def fmt_def)
  then show ?thesis
    using assms(4,5) by (simp add: text_message_handler_def)
qed

lemma example_token: "token_urlsafe (token_bytes example_env) = ''AQIDBAUGB_8''"
  by (simp add: example_env_def token_urlsafe_def b64_char_def b64_alphabet_def Let_def)

theorem share_link_round_trip_witness:
  "length (token_bytes example_env) = 8 \<and> bot_username example_world = Some ''share_bot''
   \<and> list_all is_username_char ''share_bot''
   \<and> share_link ''share_bot'' (token_urlsafe (token_bytes example_env))
       = ''https://t.me/share_bot?start=AQIDBAUGB_8''
   \<and> match_share_link ''share_bot'' ''https://t.me/share_bot?start=AQIDBAUGB_8'' = Some ''AQIDBAUGB_8''"
proof -
  let ?u = "example_update\<lparr>message_text := ''https://t.me/share_bot?start=AQIDBAUGB_8''\<rparr>"
  have 1: "length (token_bytes example_env) = 8" by (simp add: example_env_def)
  have 2: "bot_username example_world = Some ''share_bot''" by (simp add: example_world_def)
  have 3: "list_all is_username_char ''share_bot''"
    by (simp add: is_username_char_def is_token_char_def)
  have 4: "effective_chat_type ?u = PRIVATE" by (simp add: example_update_def)
  have 5: "effective_user ?u = Some 7" by (simp add: example_update_def)
  have 6: "message_text ?u = share_link (fmt (bot_username example_world))
             (token_urlsafe (token_bytes example_env))"
    by (simp add: 2 fmt_def share_link_def example_token)
  show ?thesis
    using share_link_round_trip [OF 1 2 3 4 5 6] 1 2 3
    by (simp add: or_empty_def example_token share_link_def)
qed

subsection \<open>Finish-upload\<close>

lemmas world_defs = example_world_def example_env_def example_update_def uploading_world_def
  failing_db_env_def shared_world_def callback_of_def
lemmas state_defs = get_user_data_def set_user_data_def called_def no_user_data_def

lemma files_finish:
  "files (finish_upload_handler e u w) =
     (case effective_user u of
        None \<Rightarrow> files w
      | Some user_id \<Rightarrow>
          if effective_chat_type u = PRIVATE \<and> session_refs w user_id \<noteq> [] \<and> \<not> insert_fails e w
          then files w @
                 [(token_urlsafe (token_bytes e),
                   \<lparr>message_id = join '','' (map str_int (session_refs w user_id)),
                    uploader_id = user_id,
                    file_caption = Batch_upload (case session_file_count (get_user_data w user_id) of
                                                   Some n \<Rightarrow> n | None \<Rightarrow> 0),
                    file_type = Collection\<rparr>)]
          else files w)"
  by (simp add: finish_upload_handler_def session_refs_def insert_fails_def state_defs Let_def
      split: option.splits)

lemma trace_finish:
  "effective_user u = Some user_id \<Longrightarrow> effective_chat_type u = PRIVATE \<Longrightarrow>
   trace (finish_upload_handler e u w) =
     trace w @ Reply_text Generating_link [] #
       (if session_refs w user_id = [] then [Edit_text No_files_uploaded]
        else if insert_fails e w then [Edit_text Link_error_try_later]
        else (let n = (case session_file_count (get_user_data w user_id) of Some n \<Rightarrow> n | None \<Rightarrow> 0);
                  link = share_link (fmt (bot_username w)) (token_urlsafe (token_bytes e))
              in [Edit_text (Upload_done n link),
                  Send_message (PRIVATE_CHANNEL_ID e) (Upload_log user_id n link) []]))
       @ [Reply_text Session_ended []]"
  by (simp add: finish_upload_handler_def session_refs_def insert_fails_def state_defs Let_def
      split: option.splits)

lemma user_data_finish:
  "effective_user u = Some user_id \<Longrightarrow> effective_chat_type u = PRIVATE \<Longrightarrow>
   user_data_of (finish_upload_handler e u w) =
     (user_data_of w)(user_id \<mapsto> no_user_data\<lparr>state := Some ''default''\<rparr>)"
  by (simp add: finish_upload_handler_def state_defs Let_def split: option.splits)



text \<open>
  C10. Finish-upload inserts a row only for a session that has accumulated at least one
  item reference. With an empty session the user is told that no file was uploaded and the
  table is left as it was. Every row of the table after finish-upload is a row from before
  or the row just made, whose item references, read back from the column, are the session's
  non-empty list; so if every row had item references before, every row has afterwards.
\<close>

theorem finish_upload_nonempty_records:
  "(effective_user u = Some user_id \<and> effective_chat_type u = PRIVATE \<and> session_refs w user_id = []
      \<longrightarrow> files (finish_upload_handler e u w) = files w
          \<and> trace (finish_upload_handler e u w) =
              trace w @ [Reply_text Generating_link [], Edit_text No_files_uploaded,
                         Reply_text Session_ended []])
   \<and> (\<forall>row \<in> snd ` set (files (finish_upload_handler e u w)).
        row \<in> snd ` set (files w)
        \<or> (effective_user u = Some (uploader_id row)
            \<and> session_refs w (uploader_id row) \<noteq> []
            \<and> item_refs row = Inr (session_refs w (uploader_id row))))
   \<and> (list_all has_items (map snd (files w))
        \<longrightarrow> list_all has_items (map snd (files (finish_upload_handler e u w))))"
proof -
  have empty: "effective_user u = Some user_id \<and> effective_chat_type u = PRIVATE \<and> session_refs w user_id = []
      \<longrightarrow> files (finish_upload_handler e u w) = files w
          \<and> trace (finish_upload_handler e u w) =
              trace w @ [Reply_text Generating_link [], Edit_text No_files_uploaded,
                         Reply_text Session_ended []]"
    by (simp add: files_finish trace_finish)
  have new: "\<forall>row \<in> snd ` set (files (finish_upload_handler e u w)).
        row \<in> snd ` set (files w)
        \<or> (effective_user u = Some (uploader_id row)
            \<and> session_refs w (uploader_id row) \<noteq> []
            \<and> item_refs row = Inr (session_refs w (uploader_id row)))"
    by (auto simp: files_finish item_refs_def item_refs_round_trip split: option.splits if_splits)
  have inv: "list_all has_items (map snd (files w))
        \<longrightarrow> list_all has_items (map snd (files (finish_upload_handler e u w)))"
    by (auto simp: files_finish has_items_def item_refs_def item_refs_round_trip
        split: option.splits)
  show ?thesis using empty new inv by blast
qed

theorem finish_upload_nonempty_records_witness:
  "session_refs example_world 7 = []
   \<and> files (finish_upload_handler example_env example_update example_world) = []
   \<and> trace (finish_upload_handler example_env example_update example_world) =
        [Reply_text Generating_link [], Edit_text No_files_uploaded, Reply_text Session_ended []]
   \<and> session_refs uploading_world 7 = [101, 102]
   \<and> list_all has_items (map snd (files uploading_world))
   \<and> list_all has_items
        (map snd (files (finish_upload_handler example_env example_update uploading_world)))
   \<and> map (item_refs \<circ> snd) (files (finish_upload_handler example_env example_update uploading_world))
        = [Inr [101, 102]]"
proof -
  have u: "effective_user example_update = Some 7" "effective_chat_type example_update = PRIVATE"
    by (simp_all add: example_update_def)
  have s0: "session_refs example_world 7 = []"
    by (simp add: session_refs_def world_defs state_defs)
  have s1: "session_refs uploading_world 7 = [101, 102]"
    by (simp add: session_refs_def world_defs state_defs)
  have f1: "list_all has_items (map snd (files uploading_world))"
    by (simp add: world_defs)
  have nf: "\<not> insert_fails example_env uploading_world"
    by (simp add: insert_fails_def world_defs)
  have ir: "map (item_refs \<circ> snd) (files (finish_upload_handler example_env example_update uploading_world))
        = [Inr [101, 102]]"
    using item_refs_round_trip [of "[101, 102]"]
    by (simp add: files_finish u s1 nf item_refs_def) (simp add: world_defs)
  show ?thesis
    using finish_upload_nonempty_records [of example_update 7 example_world example_env]
      finish_upload_nonempty_records [of example_update 7 uploading_world example_env]
      u s0 s1 f1 ir
    by (simp add: world_defs)
qed

text \<open>
  C4, as the code has it. When the insertion fails during finish-upload (the database
  raises, or the token is already a key), the user is told to try again later and no row is
  written, but the session is drained all the same: the references were popped before the
  attempt and the user's data are reset to the default state.
\<close>

theorem finish_upload_persistence_failure:
  assumes "effective_user u = Some user_id" and "effective_chat_type u = PRIVATE"
    and "session_refs w user_id \<noteq> []" and "insert_fails e w"
  shows "files (finish_upload_handler e u w) = files w
     \<and> trace (finish_upload_handler e u w) =
         trace w @ [Reply_text Generating_link [], Edit_text Link_error_try_later,
                    Reply_text Session_ended []]
     \<and> get_user_data (finish_upload_handler e u w) user_id = no_user_data\<lparr>state := Some ''default''\<rparr>
     \<and> session_refs (finish_upload_handler e u w) user_id = []"
  using assms
  by (simp add: files_finish trace_finish user_data_finish session_refs_def get_user_data_def
      no_user_data_def)

theorem finish_upload_persistence_failure_witness:
  "effective_user example_update = Some 7 \<and> effective_chat_type example_update = PRIVATE
   \<and> session_refs uploading_world 7 \<noteq> [] \<and> insert_fails failing_db_env uploading_world
   \<and> files (finish_upload_handler failing_db_env example_update uploading_world) = []
   \<and> session_refs (finish_upload_handler failing_db_env example_update uploading_world) 7 = []"
proof -
  have u: "effective_user example_update = Some 7" "effective_chat_type example_update = PRIVATE"
    by (simp_all add: example_update_def)
  have s1: "session_refs uploading_world 7 \<noteq> []"
    by (simp add: session_refs_def world_defs state_defs)
  have f: "insert_fails failing_db_env uploading_world"
    by (simp add: insert_fails_def world_defs)
  show ?thesis
    using finish_upload_persistence_failure [OF u s1 f] u s1 f by (simp add: world_defs)
qed

text \<open>
  The claim as stated, that the accumulated references stay in the session for a retry,
  fails: user 7 had relayed 101 and 102, the insertion fails, and they are gone.
\<close>

theorem finish_upload_keeps_refs_counterexample:
  "insert_fails failing_db_env uploading_world
   \<and> session_refs uploading_world 7 = [101, 102]
   \<and> session_refs (finish_upload_handler failing_db_env example_update uploading_world) 7
       \<noteq> [101, 102]"
  by (simp add: insert_fails_def session_refs_def finish_upload_handler_def world_defs state_defs
      Let_def)

subsection \<open>Cancel\<close>




subsection \<open>Deleting a share\<close>

lemma split_delete_data:
  assumes "CHR '':'' \<notin> set share_id"
  shows "split_max 2 CHR '':'' (''delete:'' @ share_id @ '':'' @ rest) = [''delete'', share_id, rest]"
proof -
  have 1: "takeWhile (\<lambda>c. c \<noteq> CHR '':'') (share_id @ CHR '':'' # rest) = share_id"
    using assms by (rule takeWhile_sep)
  have 2: "dropWhile (\<lambda>c. c \<noteq> CHR '':'') (share_id @ CHR '':'' # rest) = CHR '':'' # rest"
    using assms by (rule dropWhile_sep)
  show ?thesis using 1 2 by (simp add: numeral_2_eq_2)
qed

lemma delete_callback:
  assumes "effective_user u = Some user_id"
    and "query_data u = Some (''delete:'' @ share_id @ '':'' @ rest)"
    and "CHR '':'' \<notin> set share_id"
  shows "button_callback_handler e u w = delete_branch e u user_id share_id rest (called (Answer None) w)"
  using assms(1,2) split_delete_data [OF assms(3), of rest]
  by (simp add: button_callback_handler_def Let_def)

lemma delete_branch_non_owner:
  assumes "map_of (files w) share_id = Some row" and "uploader_id row \<noteq> user_id"
  shows "delete_branch e u user_id share_id (str_int page) w =
           (if db_fault e Select_share = None then called (Answer (Some No_permission)) w
            else called (Reply_text Delete_internal_error []) w)"
  using assms by (auto simp: delete_branch_def py_int_str_int split: option.splits)

text \<open>
  C3. A delete request for an existing record, pressed by somebody who is not its uploader,
  is answered with the permission-denied alert (whenever the lookup itself succeeds); in
  every case the table is left as it was, the record is still there, and no message is
  deleted from the private channel.
\<close>

theorem delete_by_non_owner_forbidden:
  assumes "effective_user u = Some user_id"
    and "query_data u = Some (''delete:'' @ share_id @ '':'' @ str_int page)"
    and "CHR '':'' \<notin> set share_id"
    and "map_of (files w) share_id = Some row" and "uploader_id row \<noteq> user_id"
  shows "(db_fault e Select_share = None \<longrightarrow>
            button_callback_handler e u w = called (Answer (Some No_permission)) (called (Answer None) w))
     \<and> files (button_callback_handler e u w) = files w
     \<and> map_of (files (button_callback_handler e u w)) share_id = Some row
     \<and> filter is_retraction (trace (button_callback_handler e u w)) = filter is_retraction (trace w)"
proof -
  have f: "map_of (files (called (Answer None) w)) share_id = Some row"
    using assms(4) by (simp add: called_def)
  have "button_callback_handler e u w =
          (if db_fault e Select_share = None
           then called (Answer (Some No_permission)) (called (Answer None) w)
           else called (Reply_text Delete_internal_error []) (called (Answer None) w))"
    unfolding delete_callback [OF assms(1,2,3)] delete_branch_non_owner [OF f assms(5)] ..
  then show ?thesis using assms(4) by (simp add: called_def)
qed

theorem delete_by_non_owner_forbidden_witness:
  "effective_user (callback_of 8 ''delete:AQIDBAUGB_8:1'') = Some 8
   \<and> map_of (files shared_world) ''AQIDBAUGB_8'' \<noteq> None
   \<and> uploader_id (the (map_of (files shared_world) ''AQIDBAUGB_8'')) \<noteq> 8
   \<and> db_fault example_env Select_share = None
   \<and> button_callback_handler example_env (callback_of 8 ''delete:AQIDBAUGB_8:1'') shared_world
       = called (Answer (Some No_permission)) (called (Answer None) shared_world)
   \<and> files (button_callback_handler example_env (callback_of 8 ''delete:AQIDBAUGB_8:1'') shared_world)
       = files shared_world"
proof -
  let ?row = "\<lparr>message_id = ''1,2,3,4,5,6,7,8,9,10,11,12'', uploader_id = 7,
               file_caption = Batch_upload 12, file_type = Collection\<rparr>"
  have 1: "effective_user (callback_of 8 ''delete:AQIDBAUGB_8:1'') = Some 8"
    by (simp add: callback_of_def)
  have 2: "query_data (callback_of 8 ''delete:AQIDBAUGB_8:1'')
           = Some (''delete:'' @ ''AQIDBAUGB_8'' @ '':'' @ str_int 1)"
  proof -
    have "str_int 1 = ''1''" by code_simp
    then show ?thesis by (simp add: callback_of_def)
  qed
  have 3: "CHR '':'' \<notin> set ''AQIDBAUGB_8''" by simp
  have 4: "map_of (files shared_world) ''AQIDBAUGB_8'' = Some ?row"
    by (simp add: shared_world_def example_world_def)
  have 5: "uploader_id ?row \<noteq> 8" by simp
  have 6: "db_fault example_env Select_share = None" by (simp add: example_env_def)
  show ?thesis
    using delete_by_non_owner_forbidden [OF 1 2 3 4 5, of example_env] 1 4 6
    by (simp add: called_def)
qed

subsection \<open>Page navigation and the gate\<close>

text \<open>
  C5 does not hold of the code. User 8 has left the required group. When he presses the
  button of page 2 of a share, \<open>button_callback_handler\<close> makes no call to the
  membership service and copies the items of that page to him; \<open>start\<close>, for the same
  user and share, checks membership and answers that access is restricted.
\<close>

theorem page_navigation_skips_gate:
  "fst (is_user_in_group example_env 8 shared_world) = False
   \<and> filter is_gate_check
        (trace (button_callback_handler example_env (callback_of 8 ''spage:2:AQIDBAUGB_8'') shared_world))
       = []
   \<and> filter is_delivery
        (trace (button_callback_handler example_env (callback_of 8 ''spage:2:AQIDBAUGB_8'') shared_world))
       = [Copy_messages 8 [11, 12]]
   \<and> trace (start example_env (callback_of 8 []\<lparr>query_data := None\<rparr>) [''AQIDBAUGB_8''] shared_world)
       = [Get_chat_member 8,
          Reply_text (Access_restricted ''https://t.me/share_bot?start=AQIDBAUGB_8'') []]"
proof -
  have g: "fst (is_user_in_group example_env 8 shared_world) = False"
    by (simp add: is_user_in_group_def example_env_def)
  have ids: "py_ints (split CHR '','' ''1,2,3,4,5,6,7,8,9,10,11,12'')
             = Inr [1, 2, 3, 4, 5, 6, 7, 8, 9, 10, 11, 12]"
    by (simp add: split_def py_int_def is_digit_def nat_of_digits_def digit_val_def)
  have t: "trace (button_callback_handler example_env (callback_of 8 ''spage:2:AQIDBAUGB_8'') shared_world)
     = [Answer None, Copy_messages 8 [11, 12], Sleep 3,
        Send_message 8 (Page_panel (Batch_upload 12) 2 2 12)
          (create_pagination_keyboard 2 2 ''spage'' (Some ''AQIDBAUGB_8''))]"
    by (simp add: button_callback_handler_def show_shared_files_page_def retract_last_page_def
        ids world_defs state_defs numeral_2_eq_2 Let_def
        py_int_def is_digit_def nat_of_digits_def digit_val_def
        paginate_def FILES_PER_PAGE_def slice_def)
  have s: "trace (start example_env (callback_of 8 []\<lparr>query_data := None\<rparr>) [''AQIDBAUGB_8''] shared_world)
       = [Get_chat_member 8,
          Reply_text (Access_restricted ''https://t.me/share_bot?start=AQIDBAUGB_8'') []]"
    by (simp add: start_def is_user_in_group_def truthy_def share_link_def or_empty_def
        world_defs state_defs Let_def)
  show ?thesis unfolding t s using g by simp
qed

subsection \<open>The debounced relay\<close>

lemma drains_append: "drains g (xs @ ys) = drains g xs @ drains g ys"
  by (induction g xs rule: drains.induct) simp_all

lemma heap_job [simp]: "heap (process_and_collect_files_job e j w) = heap w"
  by (simp add: process_and_collect_files_job_def Let_def state_defs split: sum.splits option.splits)

lemma jobs_job [simp]: "jobs (process_and_collect_files_job e j w) = jobs w"
  by (simp add: process_and_collect_files_job_def Let_def state_defs split: sum.splits option.splits)

lemma state_job [simp]:
  "state (get_user_data (process_and_collect_files_job e j w) user) = state (get_user_data w user)"
  by (auto simp: process_and_collect_files_job_def Let_def state_defs split: sum.splits option.splits)

lemma bot_data_job:
  "job_name j \<noteq> g \<Longrightarrow> bot_data (process_and_collect_files_job e j w) g = bot_data w g"
  by (simp add: process_and_collect_files_job_def Let_def state_defs split: sum.splits option.splits)

lemma bot_data_job_own:
  "job_name j \<noteq> [] \<Longrightarrow> bot_data (process_and_collect_files_job e j w) (job_name j) = None"
  by (auto simp: process_and_collect_files_job_def Let_def state_defs split: sum.splits option.splits)

lemma drains_job:
  "drains g (trace (process_and_collect_files_job e j w)) =
     drains g (trace w) @ (if job_name j = g then [heap w (job_message_ids j)] else [])"
  by (simp add: process_and_collect_files_job_def Let_def state_defs drains_append
      split: sum.splits option.splits)

lemma heap_fold [simp]: "heap (fold (process_and_collect_files_job e) js w) = heap w"
  by (induction js arbitrary: w) simp_all

lemma jobs_fold [simp]: "jobs (fold (process_and_collect_files_job e) js w) = jobs w"
  by (induction js arbitrary: w) simp_all

lemma state_fold [simp]:
  "state (get_user_data (fold (process_and_collect_files_job e) js w) user)
   = state (get_user_data w user)"
  by (induction js arbitrary: w) simp_all

lemma bot_data_fold:
  "\<forall>j \<in> set js. job_name j \<noteq> g \<Longrightarrow>
   bot_data (fold (process_and_collect_files_job e) js w) g = bot_data w g"
  by (induction js arbitrary: w) (simp_all add: bot_data_job)

lemma drains_fold:
  "drains g (trace (fold (process_and_collect_files_job e) js w)) =
     drains g (trace w) @ map (\<lambda>j. heap w (job_message_ids j)) (filter (\<lambda>j. job_name j = g) js)"
  by (induction js arbitrary: w) (simp_all add: drains_job)

lemma bot_data_job_None:
  "bot_data w g = None \<Longrightarrow> bot_data (process_and_collect_files_job e j w) g = None"
  by (auto simp: process_and_collect_files_job_def Let_def state_defs split: sum.splits option.splits)

lemma bot_data_fold_None:
  "bot_data w g = None \<Longrightarrow> bot_data (fold (process_and_collect_files_job e) js w) g = None"
  by (induction js arbitrary: w) (simp_all add: bot_data_job_None)

lemma bot_data_fold_own:
  "j \<in> set js \<Longrightarrow> job_name j = g \<Longrightarrow> g \<noteq> [] \<Longrightarrow>
   bot_data (fold (process_and_collect_files_job e) js w) g = None"
proof (induction js arbitrary: w)
  case Nil
  then show ?case by simp
next
  case (Cons k js)
  show ?case
  proof (cases "k = j")
    case True
    then show ?thesis
      using Cons.prems bot_data_job_own [of j e w] by (simp add: bot_data_fold_None)
  next
    case False
    then show ?thesis using Cons by simp
  qed
qed

lemma get_user_data_jobs_update [simp]: "get_user_data (w\<lparr>jobs := js\<rparr>) = get_user_data w"
  by (simp add: get_user_data_def fun_eq_iff)

lemma heap_run_due_jobs [simp]: "heap (run_due_jobs e t w) = heap w"
  by (simp add: run_due_jobs_def Let_def)

lemma jobs_run_due_jobs: "jobs (run_due_jobs e t w) = filter (\<lambda>j. \<not> due j \<le> t) (jobs w)"
  by (simp add: run_due_jobs_def Let_def)

lemma state_run_due_jobs [simp]:
  "state (get_user_data (run_due_jobs e t w) user) = state (get_user_data w user)"
  by (simp add: run_due_jobs_def Let_def)

lemma drains_run_due_jobs:
  "drains g (trace (run_due_jobs e t w)) =
     drains g (trace w) @
     map (\<lambda>j. heap w (job_message_ids j))
         (sort_key due (filter (\<lambda>j. due j \<le> t) (filter (\<lambda>j. job_name j = g) (jobs w))))"
  by (simp add: run_due_jobs_def Let_def drains_fold filter_sort conj_commute)

lemma bot_data_run_due_jobs:
  "\<forall>j \<in> set (jobs w). job_name j = g \<longrightarrow> \<not> due j \<le> t \<Longrightarrow>
   bot_data (run_due_jobs e t w) g = bot_data w g"
proof -
  assume a: "\<forall>j \<in> set (jobs w). job_name j = g \<longrightarrow> \<not> due j \<le> t"
  have "\<forall>j \<in> set (sort_key due (filter (\<lambda>j. due j \<le> t) (jobs w))). job_name j \<noteq> g"
    using a by auto
  then show ?thesis
    by (simp add: run_due_jobs_def Let_def bot_data_fold del: set_sort)
qed

lemma bot_data_run_due_jobs_own:
  "j \<in> set (jobs w) \<Longrightarrow> job_name j = g \<Longrightarrow> g \<noteq> [] \<Longrightarrow> due j \<le> t \<Longrightarrow>
   bot_data (run_due_jobs e t w) g = None"
  by (simp add: run_due_jobs_def Let_def bot_data_fold_own [of j])

lemma file_handler_first:
  assumes "is_member e user" and "album_item g user chat u" and "g \<noteq> []"
    and "state (get_user_data w user) = Some ''awaiting_file''"
    and "bot_data w g = None"
  shows "album_pending g user chat (next_addr w) [msg_id u] t (file_handler t e u w)
     \<and> drains g (trace (file_handler t e u w)) = drains g (trace w)"
  using assms
  by (auto simp: file_handler_def require_group_membership_def is_user_in_group_def
      file_handler_body_def album_pending_def album_item_def is_member_def truthy_def Let_def
      state_defs drains_append split: sum.splits option.splits)

lemma file_handler_next:
  assumes "is_member e user" and "album_item g user chat u" and "g \<noteq> []"
    and "album_pending g user chat a ids t0 w"
  shows "album_pending g user chat a (ids @ [msg_id u]) t (file_handler t e u w)
     \<and> drains g (trace (file_handler t e u w)) = drains g (trace w)"
  using assms
  by (auto simp: file_handler_def require_group_membership_def is_user_in_group_def
      file_handler_body_def album_pending_def album_item_def is_member_def truthy_def Let_def
      state_defs drains_append split: sum.splits option.splits)

end
